theory Spec2Isabelle
  imports Main "HOL-Library.Word"
begin

section \<open>The song record (src/core/song.cpp)\<close>

text \<open>
  \<open>Song\<close> is a handle on a reference-counted, copy-on-write \<open>Song::Private\<close>
  payload. Every write goes through the non-const \<open>d->\<close>, which detaches the
  payload first, so a \<open>Song\<close> behaves as a value and is modelled as the payload
  record itself; a setter takes the record and returns the updated one.

  C++ \<open>int\<close> is a 32-bit word and \<open>qint64\<close> a 64-bit word, both read as two's
  complement (\<open>sint\<close>, \<open><s\<close>, \<open>\<le>s\<close>); \<open>+\<close> and \<open>-\<close> wrap around, as
  they do on the machine (the language leaves signed overflow undefined).
  A \<open>QString\<close> is a \<open>string\<close>; the null and the empty \<open>QString\<close> are both
  \<open>[]\<close>, since \<open>isEmpty()\<close> and \<open>==\<close>, the only observers used here, do not
  tell them apart. A \<open>QUrl\<close> is the string of its encoded form, a \<open>QImage\<close> the
  string of its bytes (\<open>[]\<close> for the null image). A field \<open>d->title_\<close> of the
  source is the record field \<open>d_title\<close> (a name cannot end with an underscore).
\<close>

type_synonym int32 = "32 word"
type_synonym qint64 = "64 word"
type_synonym QString = string
type_synonym QUrl = string
type_synonym QImage = string

text \<open>
  The enumerators of \<open>Song::FileType\<close> that song.cpp names. The integers
  behind them are declared in song.h; the adapters take them from the
  environment (see \<open>FileType_value\<close> and \<open>FileType_cast\<close> below). An
  integer that is no enumerator's, which a cast in C++ keeps as it is, has
  no value of its own in this type: \<open>FileType_cast\<close> sends it to one of the
  enumerators. No property below reads the file type after a cast.
\<close>

datatype FileType =
    Type_Unknown
  | Type_Asf
  | Type_Flac
  | Type_Mp4
  | Type_Mpc
  | Type_Mpeg
  | Type_OggFlac
  | Type_OggSpeex
  | Type_OggVorbis
  | Type_OggOpus
  | Type_Aiff
  | Type_Wav
  | Type_TrueAudio
  | Type_Cdda

record Private =
  d_valid :: bool
  d_id :: int32
  d_album_id :: int32
  d_title :: QString
  d_album :: QString
  d_artist :: QString
  d_albumartist :: QString
  d_track :: int32
  d_disc :: int32
  d_year :: int32
  d_originalyear :: int32
  d_genre :: QString
  d_compilation :: bool
  d_composer :: QString
  d_performer :: QString
  d_grouping :: QString
  d_comment :: QString
  d_beginning :: qint64
  d_end :: qint64
  d_bitrate :: int32
  d_samplerate :: int32
  d_bitdepth :: int32
  d_directory_id :: int32
  d_basefilename :: QString
  d_url :: QUrl
  d_filetype :: FileType
  d_filesize :: int32
  d_mtime :: int32
  d_ctime :: int32
  d_unavailable :: bool
  d_playcount :: int32
  d_skipcount :: int32
  d_lastplayed :: int32
  d_compilation_detected :: bool
  d_compilation_on :: bool
  d_compilation_off :: bool
  d_art_automatic :: QString
  d_art_manual :: QString
  d_cue_path :: QString
  d_image :: QImage
  d_init_from_file :: bool
  d_suspicious_tags :: bool

type_synonym Song = Private

text \<open>
  \<open>Song::Private::Private()\<close>. The member initialiser list names every scalar
  member except \<open>bitdepth_\<close>, which therefore keeps whatever the allocated
  memory holds: the argument \<open>u\<close> is that indeterminate content. The
  \<open>QString\<close>, \<open>QUrl\<close> and \<open>QImage\<close> members are default-constructed (empty).
\<close>

definition Private_Private :: "int32 \<Rightarrow> Private" where
  "Private_Private u =
     \<lparr> d_valid = False,
       d_id = - 1,
       d_album_id = - 1,
       d_title = [],
       d_album = [],
       d_artist = [],
       d_albumartist = [],
       d_track = - 1,
       d_disc = - 1,
       d_year = - 1,
       d_originalyear = - 1,
       d_genre = [],
       d_compilation = False,
       d_composer = [],
       d_performer = [],
       d_grouping = [],
       d_comment = [],
       d_beginning = 0,
       d_end = - 1,
       d_bitrate = - 1,
       d_samplerate = - 1,
       d_bitdepth = u,
       d_directory_id = - 1,
       d_basefilename = [],
       d_url = [],
       d_filetype = Type_Unknown,
       d_filesize = - 1,
       d_mtime = - 1,
       d_ctime = - 1,
       d_unavailable = False,
       d_playcount = 0,
       d_skipcount = 0,
       d_lastplayed = - 1,
       d_compilation_detected = False,
       d_compilation_on = False,
       d_compilation_off = False,
       d_art_automatic = [],
       d_art_manual = [],
       d_cue_path = [],
       d_image = [],
       d_init_from_file = False,
       d_suspicious_tags = False \<rparr>"

text \<open>\<open>Song::Song() : d(new Private)\<close>.\<close>

definition Song_Song :: "int32 \<Rightarrow> Song" where
  "Song_Song u = Private_Private u"

subsection \<open>Accessors\<close>

definition isEmpty :: "QString \<Rightarrow> bool" where
  "isEmpty s = (s = [])"

definition is_valid :: "Song \<Rightarrow> bool" where
  "is_valid s = d_valid s"

definition title :: "Song \<Rightarrow> QString" where
  "title s = d_title s"

definition album :: "Song \<Rightarrow> QString" where
  "album s = d_album s"

definition effective_album :: "Song \<Rightarrow> QString" where
  "effective_album s = (if isEmpty (d_album s) then d_title s else d_album s)"

definition artist :: "Song \<Rightarrow> QString" where
  "artist s = d_artist s"

definition albumartist :: "Song \<Rightarrow> QString" where
  "albumartist s = d_albumartist s"

definition effective_albumartist :: "Song \<Rightarrow> QString" where
  "effective_albumartist s =
     (if isEmpty (d_albumartist s) then d_artist s else d_albumartist s)"

definition effective_originalyear :: "Song \<Rightarrow> int32" where
  "effective_originalyear s =
     (if d_originalyear s <s 0 then d_year s else d_originalyear s)"

definition is_compilation :: "Song \<Rightarrow> bool" where
  "is_compilation s =
     ((d_compilation s \<or> d_compilation_detected s \<or> d_compilation_on s)
      \<and> \<not> d_compilation_off s)"

definition playlist_albumartist :: "Song \<Rightarrow> QString" where
  "playlist_albumartist s =
     (if is_compilation s then d_albumartist s else effective_albumartist s)"

definition playcount :: "Song \<Rightarrow> int32" where
  "playcount s = d_playcount s"

definition skipcount :: "Song \<Rightarrow> int32" where
  "skipcount s = d_skipcount s"

definition lastplayed :: "Song \<Rightarrow> int32" where
  "lastplayed s = d_lastplayed s"

definition cue_path :: "Song \<Rightarrow> QString" where
  "cue_path s = d_cue_path s"

definition has_cue :: "Song \<Rightarrow> bool" where
  "has_cue s = (\<not> isEmpty (d_cue_path s))"

definition beginning_nanosec :: "Song \<Rightarrow> qint64" where
  "beginning_nanosec s = d_beginning s"

definition end_nanosec :: "Song \<Rightarrow> qint64" where
  "end_nanosec s = d_end s"

definition length_nanosec :: "Song \<Rightarrow> qint64" where
  "length_nanosec s = d_end s - d_beginning s"

definition art_automatic :: "Song \<Rightarrow> QString" where
  "art_automatic s = d_art_automatic s"

definition art_manual :: "Song \<Rightarrow> QString" where
  "art_manual s = d_art_manual s"

subsection \<open>Setters\<close>

definition set_title :: "QString \<Rightarrow> Song \<Rightarrow> Song" where
  "set_title v s = s\<lparr>d_title := v\<rparr>"

definition set_album :: "QString \<Rightarrow> Song \<Rightarrow> Song" where
  "set_album v s = s\<lparr>d_album := v\<rparr>"

definition set_artist :: "QString \<Rightarrow> Song \<Rightarrow> Song" where
  "set_artist v s = s\<lparr>d_artist := v\<rparr>"

definition set_albumartist :: "QString \<Rightarrow> Song \<Rightarrow> Song" where
  "set_albumartist v s = s\<lparr>d_albumartist := v\<rparr>"

definition set_track :: "int32 \<Rightarrow> Song \<Rightarrow> Song" where
  "set_track v s = s\<lparr>d_track := v\<rparr>"

definition set_cue_path :: "QString \<Rightarrow> Song \<Rightarrow> Song" where
  "set_cue_path v s = s\<lparr>d_cue_path := v\<rparr>"

definition set_compilation :: "bool \<Rightarrow> Song \<Rightarrow> Song" where
  "set_compilation v s = s\<lparr>d_compilation := v\<rparr>"

definition set_compilation_detected :: "bool \<Rightarrow> Song \<Rightarrow> Song" where
  "set_compilation_detected v s = s\<lparr>d_compilation_detected := v\<rparr>"

definition set_compilation_on :: "bool \<Rightarrow> Song \<Rightarrow> Song" where
  "set_compilation_on v s = s\<lparr>d_compilation_on := v\<rparr>"

definition set_compilation_off :: "bool \<Rightarrow> Song \<Rightarrow> Song" where
  "set_compilation_off v s = s\<lparr>d_compilation_off := v\<rparr>"

text \<open>\<open>qMax(0ll, v)\<close> compares as signed 64-bit integers.\<close>

definition set_beginning_nanosec :: "qint64 \<Rightarrow> Song \<Rightarrow> Song" where
  "set_beginning_nanosec v s = s\<lparr>d_beginning := (if 0 <s v then v else 0)\<rparr>"

definition set_end_nanosec :: "qint64 \<Rightarrow> Song \<Rightarrow> Song" where
  "set_end_nanosec v s = s\<lparr>d_end := v\<rparr>"

definition set_length_nanosec :: "qint64 \<Rightarrow> Song \<Rightarrow> Song" where
  "set_length_nanosec v s = s\<lparr>d_end := d_beginning s + v\<rparr>"

definition set_playcount :: "int32 \<Rightarrow> Song \<Rightarrow> Song" where
  "set_playcount v s = s\<lparr>d_playcount := v\<rparr>"

definition set_skipcount :: "int32 \<Rightarrow> Song \<Rightarrow> Song" where
  "set_skipcount v s = s\<lparr>d_skipcount := v\<rparr>"

definition set_lastplayed :: "int32 \<Rightarrow> Song \<Rightarrow> Song" where
  "set_lastplayed v s = s\<lparr>d_lastplayed := v\<rparr>"

definition set_art_manual :: "QString \<Rightarrow> Song \<Rightarrow> Song" where
  "set_art_manual v s = s\<lparr>d_art_manual := v\<rparr>"

subsection \<open>Comparisons\<close>

definition IsMetadataEqual :: "Song \<Rightarrow> Song \<Rightarrow> bool" where
  "IsMetadataEqual s other =
     (d_title s = d_title other \<and>
      d_album s = d_album other \<and>
      d_artist s = d_artist other \<and>
      d_albumartist s = d_albumartist other \<and>
      d_composer s = d_composer other \<and>
      d_performer s = d_performer other \<and>
      d_grouping s = d_grouping other \<and>
      d_track s = d_track other \<and>
      d_disc s = d_disc other \<and>
      d_year s = d_year other \<and>
      d_originalyear s = d_originalyear other \<and>
      d_genre s = d_genre other \<and>
      d_comment s = d_comment other \<and>
      d_compilation s = d_compilation other \<and>
      d_beginning s = d_beginning other \<and>
      length_nanosec s = length_nanosec other \<and>
      d_bitrate s = d_bitrate other \<and>
      d_samplerate s = d_samplerate other \<and>
      d_bitdepth s = d_bitdepth other \<and>
      d_art_automatic s = d_art_automatic other \<and>
      d_art_manual s = d_art_manual other \<and>
      d_cue_path s = d_cue_path other)"

definition IsOnSameAlbum :: "Song \<Rightarrow> Song \<Rightarrow> bool" where
  "IsOnSameAlbum s other =
     (if is_compilation s \<noteq> is_compilation other then False
      else if has_cue s \<and> has_cue other \<and> cue_path s = cue_path other then True
      else if is_compilation s \<and> album s = album other then True
      else effective_album s = effective_album other
           \<and> effective_albumartist s = effective_albumartist other)"

text \<open>
  \<open>QString("%1|%2|%3").arg(a1, a2, a3)\<close>: the three-argument overload replaces
  the three place markers in one pass, so the result is the three arguments
  with a bar between them.
\<close>

definition AlbumKey :: "Song \<Rightarrow> QString" where
  "AlbumKey s =
     (if is_compilation s then ''_compilation'' else effective_albumartist s)
     @ ''|'' @ (if has_cue s then cue_path s else []) @ ''|'' @ effective_album s"

definition MergeUserSetData :: "Song \<Rightarrow> Song \<Rightarrow> Song" where
  "MergeUserSetData s other =
     set_art_manual (art_manual other)
       (set_lastplayed (lastplayed other)
         (set_skipcount (skipcount other)
           (set_playcount (playcount other) s)))"

section \<open>The world outside the record\<close>

text \<open>
  The adapters call into Qt, the file system and other parts of the
  application. What they get from there is a parameter of the model:
  \<^item> \<open>kIsPortable\<close>: the constant \<open>Application::kIsPortable\<close>;
  \<^item> \<open>resolved_against_application_dir v\<close>:
    \<open>QUrl::fromLocalFile(QCoreApplication::applicationDirPath() + "/").resolved(v)\<close>;
  \<^item> \<open>UrlOnSameDriveAsStrawberry\<close>, \<open>GetRelativePathToStrawberryBin\<close>: the
    two functions of \<open>Utilities\<close>;
  \<^item> \<open>local_fileName u\<close>: \<open>QFileInfo(u.toLocalFile()).fileName()\<close>;
  \<^item> \<open>ImageCacheDir\<close>: \<open>AlbumCoverLoader::ImageCacheDir()\<close>;
  \<^item> \<open>Sha1CoverHash_toHex artist album\<close>:
    \<open>Utilities::Sha1CoverHash(artist, album).toHex()\<close>;
  \<^item> \<open>QFile_exists\<close>: \<open>QFile::exists\<close>, the state of the file system;
  \<^item> \<open>FileType_value\<close>, \<open>FileType_cast\<close>: the integer of an enumerator of
    \<open>Song::FileType\<close> and the cast of an integer to the enumeration (the
    enumeration is declared in song.h);
  \<^item> \<open>QString_toInt\<close>, \<open>QString_toLongLong\<close>, \<open>QString_toBool\<close>,
    \<open>QString_number\<close>: what \<open>QVariant\<close> does to turn a string into a number
    or a truth value, and a number into a string.
\<close>

record Env =
  kIsPortable :: bool
  resolved_against_application_dir :: "QUrl \<Rightarrow> QUrl"
  UrlOnSameDriveAsStrawberry :: "QUrl \<Rightarrow> bool"
  GetRelativePathToStrawberryBin :: "QUrl \<Rightarrow> QUrl"
  local_fileName :: "QUrl \<Rightarrow> QString"
  ImageCacheDir :: QString
  Sha1CoverHash_toHex :: "QString \<Rightarrow> QString \<Rightarrow> QString"
  QFile_exists :: "QString \<Rightarrow> bool"
  FileType_value :: "FileType \<Rightarrow> int32"
  FileType_cast :: "int32 \<Rightarrow> FileType"
  QString_toInt :: "QString \<Rightarrow> int32"
  QString_toLongLong :: "QString \<Rightarrow> qint64"
  QString_toBool :: "QString \<Rightarrow> bool"
  QString_number :: "qint64 \<Rightarrow> QString"

definition set_url :: "Env \<Rightarrow> QUrl \<Rightarrow> Song \<Rightarrow> Song" where
  "set_url env v s =
     (if kIsPortable env then s\<lparr>d_url := resolved_against_application_dir env v\<rparr>
      else s\<lparr>d_url := v\<rparr>)"

text \<open>
  \<open>Song::InitArtManual\<close>: with no art at all, adopt the cached cover if a file
  is there.
\<close>

definition InitArtManual :: "Env \<Rightarrow> Song \<Rightarrow> Song" where
  "InitArtManual env s =
     (if isEmpty (d_art_manual s) \<and> isEmpty (d_art_automatic s) then
        (let filename = Sha1CoverHash_toHex env (d_artist s) (d_album s) @ ''.jpg'';
             path = ImageCacheDir env @ ''/'' @ filename
         in if QFile_exists env path then s\<lparr>d_art_manual := path\<rparr> else s)
      else s)"

section \<open>The wire adapter\<close>

text \<open>
  The message \<open>pb::tagreader::SongMetadata\<close>. Its fields are optional with a
  default; the reader tests the presence of \<open>art_automatic\<close> and \<open>playcount\<close>
  only, so these two are options and the others are values. The integer
  fields are 32 bits wide, the length 64; a string field is the UTF-8 bytes of
  the \<open>QString\<close>, the \<open>string\<close> itself here.
\<close>

record SongMetadata =
  pb_valid :: bool
  pb_title :: string
  pb_album :: string
  pb_artist :: string
  pb_albumartist :: string
  pb_composer :: string
  pb_performer :: string
  pb_grouping :: string
  pb_track :: int32
  pb_disc :: int32
  pb_year :: int32
  pb_originalyear :: int32
  pb_genre :: string
  pb_comment :: string
  pb_compilation :: bool
  pb_playcount :: "int32 option"
  pb_skipcount :: int32
  pb_lastplayed :: int32
  pb_length_nanosec :: qint64
  pb_bitrate :: int32
  pb_samplerate :: int32
  pb_bitdepth :: int32
  pb_url :: string
  pb_basefilename :: string
  pb_mtime :: int32
  pb_ctime :: int32
  pb_filesize :: int32
  pb_suspicious_tags :: bool
  pb_art_automatic :: "string option"
  pb_filetype :: int32

definition InitFromProtobuf :: "Env \<Rightarrow> SongMetadata \<Rightarrow> Song \<Rightarrow> Song" where
  "InitFromProtobuf env pb s =
     (let s = s\<lparr> d_init_from_file := True,
                  d_valid := pb_valid pb,
                  d_title := pb_title pb,
                  d_album := pb_album pb,
                  d_artist := pb_artist pb,
                  d_albumartist := pb_albumartist pb,
                  d_composer := pb_composer pb,
                  d_performer := pb_performer pb,
                  d_grouping := pb_grouping pb,
                  d_track := pb_track pb,
                  d_disc := pb_disc pb,
                  d_year := pb_year pb,
                  d_originalyear := pb_originalyear pb,
                  d_genre := pb_genre pb,
                  d_comment := pb_comment pb,
                  d_compilation := pb_compilation pb,
                  d_skipcount := pb_skipcount pb,
                  d_lastplayed := pb_lastplayed pb \<rparr>;
          s = set_length_nanosec (pb_length_nanosec pb) s;
          s = s\<lparr> d_bitrate := pb_bitrate pb,
                  d_samplerate := pb_samplerate pb,
                  d_bitdepth := pb_bitdepth pb \<rparr>;
          s = set_url env (pb_url pb) s;
          s = s\<lparr> d_basefilename := pb_basefilename pb,
                  d_mtime := pb_mtime pb,
                  d_ctime := pb_ctime pb,
                  d_filesize := pb_filesize pb,
                  d_suspicious_tags := pb_suspicious_tags pb,
                  d_filetype := FileType_cast env (pb_filetype pb) \<rparr>;
          s = (case pb_art_automatic pb of
                 Some v \<Rightarrow> s\<lparr>d_art_automatic := v\<rparr>
               | None \<Rightarrow> s);
          s = (case pb_playcount pb of
                 Some v \<Rightarrow> s\<lparr>d_playcount := v\<rparr>
               | None \<Rightarrow> s)
      in InitArtManual env s)"

definition ToProtobuf :: "Env \<Rightarrow> Song \<Rightarrow> SongMetadata \<Rightarrow> SongMetadata" where
  "ToProtobuf env s pb =
     pb\<lparr> pb_valid := d_valid s,
         pb_title := d_title s,
         pb_album := d_album s,
         pb_artist := d_artist s,
         pb_albumartist := d_albumartist s,
         pb_composer := d_composer s,
         pb_performer := d_performer s,
         pb_grouping := d_grouping s,
         pb_track := d_track s,
         pb_disc := d_disc s,
         pb_year := d_year s,
         pb_originalyear := d_originalyear s,
         pb_genre := d_genre s,
         pb_comment := d_comment s,
         pb_compilation := d_compilation s,
         pb_playcount := Some (d_playcount s),
         pb_skipcount := d_skipcount s,
         pb_lastplayed := d_lastplayed s,
         pb_length_nanosec := length_nanosec s,
         pb_bitrate := d_bitrate s,
         pb_samplerate := d_samplerate s,
         pb_bitdepth := d_bitdepth s,
         pb_url := d_url s,
         pb_basefilename := d_basefilename s,
         pb_mtime := d_mtime s,
         pb_ctime := d_ctime s,
         pb_filesize := d_filesize s,
         pb_suspicious_tags := d_suspicious_tags s,
         pb_art_automatic := Some (d_art_automatic s),
         pb_filetype := FileType_value env (d_filetype s) \<rparr>"

section \<open>The relational adapter\<close>

definition kColumns :: "QString list" where
  "kColumns =
     [''title'', ''album'', ''artist'', ''albumartist'', ''track'', ''disc'',
      ''year'', ''originalyear'', ''genre'', ''compilation'', ''composer'',
      ''performer'', ''grouping'', ''comment'',
      ''beginning'', ''length'',
      ''bitrate'', ''samplerate'', ''bitdepth'',
      ''directory_id'', ''filename'', ''filetype'', ''filesize'', ''mtime'',
      ''ctime'', ''unavailable'',
      ''playcount'', ''skipcount'', ''lastplayed'',
      ''compilation_detected'', ''compilation_on'', ''compilation_off'',
      ''compilation_effective'',
      ''art_automatic'', ''art_manual'',
      ''effective_albumartist'', ''effective_originalyear'',
      ''cue_path'']"

text \<open>
  A \<open>QVariant\<close> as the adapter meets it: null (an SQL NULL, or \<open>QVariant()\<close>),
  an \<open>int\<close>, a \<open>qlonglong\<close>, a string or a byte array. The conversions are
  Qt's: a number narrows by truncation and widens by sign extension, a number
  is true when it is not 0, and a null variant converts to 0, false and the
  empty string.
\<close>

datatype QVariant =
    QVariant_Null
  | QVariant_int int32
  | QVariant_qlonglong qint64
  | QVariant_QString QString
  | QVariant_QByteArray string

fun isNull :: "QVariant \<Rightarrow> bool" where
  "isNull QVariant_Null = True"
| "isNull _ = False"

fun toInt :: "Env \<Rightarrow> QVariant \<Rightarrow> int32" where
  "toInt env QVariant_Null = 0"
| "toInt env (QVariant_int v) = v"
| "toInt env (QVariant_qlonglong v) = ucast v"
| "toInt env (QVariant_QString t) = QString_toInt env t"
| "toInt env (QVariant_QByteArray t) = QString_toInt env t"

fun toLongLong :: "Env \<Rightarrow> QVariant \<Rightarrow> qint64" where
  "toLongLong env QVariant_Null = 0"
| "toLongLong env (QVariant_int v) = scast v"
| "toLongLong env (QVariant_qlonglong v) = v"
| "toLongLong env (QVariant_QString t) = QString_toLongLong env t"
| "toLongLong env (QVariant_QByteArray t) = QString_toLongLong env t"

fun toBool :: "Env \<Rightarrow> QVariant \<Rightarrow> bool" where
  "toBool env QVariant_Null = False"
| "toBool env (QVariant_int v) = (v \<noteq> 0)"
| "toBool env (QVariant_qlonglong v) = (v \<noteq> 0)"
| "toBool env (QVariant_QString t) = QString_toBool env t"
| "toBool env (QVariant_QByteArray t) = QString_toBool env t"

fun toString :: "Env \<Rightarrow> QVariant \<Rightarrow> QString" where
  "toString env QVariant_Null = []"
| "toString env (QVariant_int v) = QString_number env (scast v)"
| "toString env (QVariant_qlonglong v) = QString_number env v"
| "toString env (QVariant_QString t) = t"
| "toString env (QVariant_QByteArray t) = t"

text \<open>The macros of \<open>InitFromQuery\<close>, on the value of a column.\<close>

definition tostr :: "Env \<Rightarrow> QVariant \<Rightarrow> QString" where
  "tostr env v = (if isNull v then [] else toString env v)"

definition toint :: "Env \<Rightarrow> QVariant \<Rightarrow> int32" where
  "toint env v = (if isNull v then - 1 else toInt env v)"

definition tolonglong :: "Env \<Rightarrow> QVariant \<Rightarrow> qint64" where
  "tolonglong env v = (if isNull v then - 1 else toLongLong env v)"

text \<open>
  \<open>SqlRow\<close> holds the values of a result row in \<open>columns_\<close> (the field
  \<open>columns\<close> here); \<open>q.value(n)\<close> is \<open>columns_[n]\<close>, which is not defined
  beyond the end of the list.
\<close>

record SqlRow =
  columns :: "QVariant list"

datatype LogLine = Skipping QString | Forgot_to_handle QString

text \<open>
  The body of the loop of \<open>InitFromQuery\<close> below the size test: the chain of
  comparisons of the column name \<open>c\<close>, for the value \<open>v = q.value(x)\<close>.
\<close>

definition InitFromQuery_column ::
  "Env \<Rightarrow> QString \<Rightarrow> QVariant \<Rightarrow> Song \<times> LogLine list \<Rightarrow> Song \<times> LogLine list" where
  "InitFromQuery_column env c v st =
     (let s = fst st; lg = snd st in
      if c = ''title'' then (s\<lparr>d_title := tostr env v\<rparr>, lg)
      else if c = ''album'' then (s\<lparr>d_album := tostr env v\<rparr>, lg)
      else if c = ''artist'' then (s\<lparr>d_artist := tostr env v\<rparr>, lg)
      else if c = ''albumartist'' then (s\<lparr>d_albumartist := tostr env v\<rparr>, lg)
      else if c = ''track'' then (s\<lparr>d_track := toint env v\<rparr>, lg)
      else if c = ''disc'' then (s\<lparr>d_disc := toint env v\<rparr>, lg)
      else if c = ''year'' then (s\<lparr>d_year := toint env v\<rparr>, lg)
      else if c = ''originalyear'' then (s\<lparr>d_originalyear := toint env v\<rparr>, lg)
      else if c = ''genre'' then (s\<lparr>d_genre := tostr env v\<rparr>, lg)
      else if c = ''compilation'' then (s\<lparr>d_compilation := toBool env v\<rparr>, lg)
      else if c = ''composer'' then (s\<lparr>d_composer := tostr env v\<rparr>, lg)
      else if c = ''performer'' then (s\<lparr>d_performer := tostr env v\<rparr>, lg)
      else if c = ''grouping'' then (s\<lparr>d_grouping := tostr env v\<rparr>, lg)
      else if c = ''comment'' then (s\<lparr>d_comment := tostr env v\<rparr>, lg)
      else if c = ''beginning'' then
        (s\<lparr>d_beginning := (if isNull v then 0 else toLongLong env v)\<rparr>, lg)
      else if c = ''length'' then (set_length_nanosec (tolonglong env v) s, lg)
      else if c = ''bitrate'' then (s\<lparr>d_bitrate := toint env v\<rparr>, lg)
      else if c = ''samplerate'' then (s\<lparr>d_samplerate := toint env v\<rparr>, lg)
      else if c = ''bitdepth'' then (s\<lparr>d_bitdepth := toint env v\<rparr>, lg)
      else if c = ''directory_id'' then (s\<lparr>d_directory_id := toint env v\<rparr>, lg)
      else if c = ''filename'' then
        (let s' = set_url env (tostr env v) s
         in (s'\<lparr>d_basefilename := local_fileName env (d_url s')\<rparr>, lg))
      else if c = ''filetype'' then
        (s\<lparr>d_filetype := FileType_cast env (toInt env v)\<rparr>, lg)
      else if c = ''filesize'' then (s\<lparr>d_filesize := toint env v\<rparr>, lg)
      else if c = ''mtime'' then (s\<lparr>d_mtime := toint env v\<rparr>, lg)
      else if c = ''ctime'' then (s\<lparr>d_ctime := toint env v\<rparr>, lg)
      else if c = ''unavailable'' then (s\<lparr>d_unavailable := toBool env v\<rparr>, lg)
      else if c = ''playcount'' then
        (s\<lparr>d_playcount := (if isNull v then 0 else toInt env v)\<rparr>, lg)
      else if c = ''skipcount'' then
        (s\<lparr>d_skipcount := (if isNull v then 0 else toInt env v)\<rparr>, lg)
      else if c = ''lastplayed'' then (s\<lparr>d_lastplayed := toint env v\<rparr>, lg)
      else if c = ''compilation_detected'' then
        (s\<lparr>d_compilation_detected := toBool env v\<rparr>, lg)
      else if c = ''compilation_on'' then (s\<lparr>d_compilation_on := toBool env v\<rparr>, lg)
      else if c = ''compilation_off'' then (s\<lparr>d_compilation_off := toBool env v\<rparr>, lg)
      else if c = ''compilation_effective'' then (s, lg)
      else if c = ''art_automatic'' then (s\<lparr>d_art_automatic := toString env v\<rparr>, lg)
      else if c = ''art_manual'' then (s\<lparr>d_art_manual := toString env v\<rparr>, lg)
      else if c = ''effective_albumartist'' then (s, lg)
      else if c = ''effective_originalyear'' then (s, lg)
      else if c = ''cue_path'' then (s\<lparr>d_cue_path := tostr env v\<rparr>, lg)
      else (s, lg @ [Forgot_to_handle c]))"

text \<open>
  The loop over \<open>kColumns\<close>: \<open>cs\<close> are the names still to come and \<open>x\<close> the
  index of the value read last. The loop stops, with a line in the log, at the
  first name whose value the row does not hold.
\<close>

fun InitFromQuery_loop ::
  "Env \<Rightarrow> SqlRow \<Rightarrow> QString list \<Rightarrow> nat \<Rightarrow> Song \<times> LogLine list \<Rightarrow> Song \<times> LogLine list" where
  "InitFromQuery_loop env q [] x st = st"
| "InitFromQuery_loop env q (c # cs) x st =
     (if length (columns q) \<le> Suc x then (fst st, snd st @ [Skipping c])
      else InitFromQuery_loop env q cs (Suc x)
             (InitFromQuery_column env c (columns q ! Suc x) st))"

text \<open>
  \<open>Song::InitFromQuery(q, reliable_metadata, col)\<close>, with the song it is
  called on. The id is read at \<open>col\<close> before any test: for a \<open>col\<close> outside
  the row the read is undefined, and the result is \<open>None\<close>. Otherwise the
  result is the song and the lines logged.
\<close>

definition InitFromQuery ::
  "Env \<Rightarrow> SqlRow \<Rightarrow> bool \<Rightarrow> int32 \<Rightarrow> Song \<Rightarrow> (Song \<times> LogLine list) option" where
  "InitFromQuery env q reliable_metadata col s =
     (if col <s 0 \<or> int (length (columns q)) \<le> sint col then None
      else
        (let x = nat (sint col);
             s = s\<lparr>d_id := toint env (columns q ! x)\<rparr>;
             st = InitFromQuery_loop env q kColumns x (s, []);
             s = (fst st)\<lparr>d_valid := True, d_init_from_file := reliable_metadata\<rparr>
         in Some (InitArtManual env s, snd st)))"

text \<open>
  A \<open>QSqlQuery\<close> is the map from its placeholders to the values bound;
  \<open>bindValue\<close> binds one.
\<close>

type_synonym QSqlQuery = "QString \<rightharpoonup> QVariant"

definition bindValue :: "QString \<Rightarrow> QVariant \<Rightarrow> QSqlQuery \<Rightarrow> QSqlQuery" where
  "bindValue placeholder v query = query(placeholder \<mapsto> v)"

text \<open>The macros of \<open>BindToQuery\<close>, and a truth value bound as 1 or 0.\<close>

definition strval :: "QString \<Rightarrow> QString" where
  "strval x = (if x = [] then [] else x)"

definition intval :: "'a::len word \<Rightarrow> 'a word" where
  "intval x = (if x \<le>s 0 then - 1 else x)"

definition notnullintval :: "int32 \<Rightarrow> QVariant" where
  "notnullintval x = (if x = - 1 then QVariant_Null else QVariant_int x)"

definition one_or_zero :: "bool \<Rightarrow> QVariant" where
  "one_or_zero b = QVariant_int (if b then 1 else 0)"

definition BindToQuery :: "Env \<Rightarrow> Song \<Rightarrow> QSqlQuery \<Rightarrow> QSqlQuery" where
  "BindToQuery env s query =
     fold (\<lambda>(placeholder, v). bindValue placeholder v)
       [ ('':title'', QVariant_QString (strval (d_title s))),
         ('':album'', QVariant_QString (strval (d_album s))),
         ('':artist'', QVariant_QString (strval (d_artist s))),
         ('':albumartist'', QVariant_QString (strval (d_albumartist s))),
         ('':track'', QVariant_int (intval (d_track s))),
         ('':disc'', QVariant_int (intval (d_disc s))),
         ('':year'', QVariant_int (intval (d_year s))),
         ('':originalyear'', QVariant_int (intval (d_originalyear s))),
         ('':genre'', QVariant_QString (strval (d_genre s))),
         ('':compilation'', one_or_zero (d_compilation s)),
         ('':composer'', QVariant_QString (strval (d_composer s))),
         ('':performer'', QVariant_QString (strval (d_performer s))),
         ('':grouping'', QVariant_QString (strval (d_grouping s))),
         ('':comment'', QVariant_QString (strval (d_comment s))),
         ('':beginning'', QVariant_qlonglong (d_beginning s)),
         ('':length'', QVariant_qlonglong (intval (length_nanosec s))),
         ('':bitrate'', QVariant_int (intval (d_bitrate s))),
         ('':samplerate'', QVariant_int (intval (d_samplerate s))),
         ('':bitdepth'', QVariant_int (intval (d_bitdepth s))),
         ('':directory_id'', notnullintval (d_directory_id s)),
         ('':filename'',
           QVariant_QByteArray
             (if kIsPortable env \<and> UrlOnSameDriveAsStrawberry env (d_url s)
              then GetRelativePathToStrawberryBin env (d_url s)
              else d_url s)),
         ('':filetype'', QVariant_int (FileType_value env (d_filetype s))),
         ('':filesize'', notnullintval (d_filesize s)),
         ('':mtime'', notnullintval (d_mtime s)),
         ('':ctime'', notnullintval (d_ctime s)),
         ('':unavailable'', one_or_zero (d_unavailable s)),
         ('':playcount'', QVariant_int (d_playcount s)),
         ('':skipcount'', QVariant_int (d_skipcount s)),
         ('':lastplayed'', QVariant_int (intval (d_lastplayed s))),
         ('':compilation_detected'', one_or_zero (d_compilation_detected s)),
         ('':compilation_on'', one_or_zero (d_compilation_on s)),
         ('':compilation_off'', one_or_zero (d_compilation_off s)),
         ('':compilation_effective'', one_or_zero (is_compilation s)),
         ('':art_automatic'', QVariant_QString (d_art_automatic s)),
         ('':art_manual'', QVariant_QString (d_art_manual s)),
         ('':effective_albumartist'', QVariant_QString (effective_albumartist s)),
         ('':effective_originalyear'', QVariant_int (intval (effective_originalyear s))),
         ('':cue_path'', QVariant_QString (d_cue_path s)) ]
       query"

text \<open>
  The database is not part of the program. For the round trip it is taken to
  hand back what was bound: the row that
  \<open>SELECT ROWID, <kColumnSpec>\<close> returns for a record written with the
  bindings \<open>query\<close> holds the row id and then, for each name of \<open>kColumns\<close>,
  the value bound to its placeholder (NULL when none was).
\<close>

definition boundValue :: "QSqlQuery \<Rightarrow> QString \<Rightarrow> QVariant" where
  "boundValue query placeholder =
     (case query placeholder of Some v \<Rightarrow> v | None \<Rightarrow> QVariant_Null)"

definition selected_row :: "int32 \<Rightarrow> QSqlQuery \<Rightarrow> SqlRow" where
  "selected_row rowid query =
     \<lparr> columns = QVariant_int rowid # map (\<lambda>c. boundValue query (CHR '':'' # c)) kColumns \<rparr>"

section \<open>Example records\<close>

text \<open>
  Concrete songs, each built from a default-constructed one (on memory that
  held 0 where \<open>bitdepth_\<close> lies) with the setters.
\<close>

definition song_tagged_compilation :: Song where
  "song_tagged_compilation = set_compilation True (Song_Song 0)"

definition song_single_p :: Song where
  "song_single_p = set_artist ''p'' (set_title ''t'' (Song_Song 0))"

definition song_single_p_track_2 :: Song where
  "song_single_p_track_2 = set_track 2 (set_artist ''p'' (set_title ''t'' (Song_Song 0)))"

definition song_single_q :: Song where
  "song_single_q = set_artist ''q'' (set_title ''t'' (Song_Song 0))"

definition song_cue_a :: Song where
  "song_cue_a = set_cue_path ''c.cue'' (set_title ''a'' (Song_Song 0))"

definition song_cue_b :: Song where
  "song_cue_b = set_cue_path ''c.cue'' (set_title ''b'' (Song_Song 0))"

definition song_album_x :: Song where
  "song_album_x = set_artist ''p'' (set_album ''x'' (set_title ''a'' (Song_Song 0)))"

definition song_album_x' :: Song where
  "song_album_x' = set_artist ''p'' (set_album ''x'' (set_title ''b'' (Song_Song 0)))"

definition song_track_0 :: Song where
  "song_track_0 = set_track 0 (Song_Song 0)"

definition song_began_late :: Song where
  "song_began_late = set_beginning_nanosec 5 (Song_Song 0)"

text \<open>
  A song with a title, a track number and, as its manual art, the cover that
  \<open>cached_env\<close> below holds in its cache.
\<close>

definition song_wire_t :: Song where
  "song_wire_t =
     set_art_manual ''cache/c0ffee.jpg'' (set_track 3 (set_title ''t'' (Song_Song 0)))"

text \<open>
  An environment for the examples: not portable, an empty cover cache, every
  cover hashed to the same name, the file types numbered in the order above.
  No string of the examples is read as a number or a truth value, and no
  number as a string.
\<close>

fun example_FileType_value :: "FileType \<Rightarrow> int32" where
  "example_FileType_value Type_Unknown = 0"
| "example_FileType_value Type_Asf = 1"
| "example_FileType_value Type_Flac = 2"
| "example_FileType_value Type_Mp4 = 3"
| "example_FileType_value Type_Mpc = 4"
| "example_FileType_value Type_Mpeg = 5"
| "example_FileType_value Type_OggFlac = 6"
| "example_FileType_value Type_OggSpeex = 7"
| "example_FileType_value Type_OggVorbis = 8"
| "example_FileType_value Type_OggOpus = 9"
| "example_FileType_value Type_Aiff = 10"
| "example_FileType_value Type_Wav = 11"
| "example_FileType_value Type_TrueAudio = 12"
| "example_FileType_value Type_Cdda = 13"

definition example_FileType_cast :: "int32 \<Rightarrow> FileType" where
  "example_FileType_cast n =
     (if n = 1 then Type_Asf else if n = 2 then Type_Flac
      else if n = 3 then Type_Mp4 else if n = 4 then Type_Mpc
      else if n = 5 then Type_Mpeg else if n = 6 then Type_OggFlac
      else if n = 7 then Type_OggSpeex else if n = 8 then Type_OggVorbis
      else if n = 9 then Type_OggOpus else if n = 10 then Type_Aiff
      else if n = 11 then Type_Wav else if n = 12 then Type_TrueAudio
      else if n = 13 then Type_Cdda else Type_Unknown)"

definition plain_env :: Env where
  "plain_env =
     \<lparr> kIsPortable = False,
       resolved_against_application_dir = (\<lambda>u. u),
       UrlOnSameDriveAsStrawberry = (\<lambda>u. False),
       GetRelativePathToStrawberryBin = (\<lambda>u. u),
       local_fileName = (\<lambda>u. u),
       ImageCacheDir = ''cache'',
       Sha1CoverHash_toHex = (\<lambda>artist album. ''c0ffee''),
       QFile_exists = (\<lambda>path. False),
       FileType_value = example_FileType_value,
       FileType_cast = example_FileType_cast,
       QString_toInt = (\<lambda>t. 0),
       QString_toLongLong = (\<lambda>t. 0),
       QString_toBool = (\<lambda>t. False),
       QString_number = (\<lambda>n. []) \<rparr>"

text \<open>The same environment with the cover \<open>cache/c0ffee.jpg\<close> in the cache.\<close>

definition cached_env :: Env where
  "cached_env = plain_env\<lparr>QFile_exists := (\<lambda>path. path = ''cache/c0ffee.jpg'')\<rparr>"

text \<open>The message a fresh \<open>SongMetadata\<close> object holds before it is filled.\<close>

definition empty_message :: SongMetadata where
  "empty_message =
     \<lparr> pb_valid = False, pb_title = [], pb_album = [], pb_artist = [],
       pb_albumartist = [], pb_composer = [], pb_performer = [], pb_grouping = [],
       pb_track = 0, pb_disc = 0, pb_year = 0, pb_originalyear = 0,
       pb_genre = [], pb_comment = [], pb_compilation = False,
       pb_playcount = None, pb_skipcount = 0, pb_lastplayed = 0,
       pb_length_nanosec = 0, pb_bitrate = 0, pb_samplerate = 0, pb_bitdepth = 0,
       pb_url = [], pb_basefilename = [], pb_mtime = 0, pb_ctime = 0,
       pb_filesize = 0, pb_suspicious_tags = False, pb_art_automatic = None,
       pb_filetype = 0 \<rparr>"

text \<open>A result row cut after ten values: the row id and nine columns.\<close>

definition truncated_row :: SqlRow where
  "truncated_row =
     \<lparr> columns =
         [ QVariant_int 7, QVariant_QString ''t'', QVariant_QString ''al'',
           QVariant_QString ''ar'', QVariant_QString [], QVariant_int 1,
           QVariant_int 1, QVariant_int 2001, QVariant_Null,
           QVariant_QString ''g'' ] \<rparr>"

section \<open>Properties of the record\<close>

lemmas default_song_defs = Song_Song_def Private_Private_def

lemmas setter_defs =
  set_title_def set_album_def set_artist_def set_albumartist_def set_track_def
  set_cue_path_def set_compilation_def

lemmas accessor_defs =
  isEmpty_def is_compilation_def has_cue_def cue_path_def album_def
  effective_album_def effective_albumartist_def

text \<open>
  C3. For all sixteen values of the four flags, written with the four setters,
  \<open>is_compilation\<close> is (compilation or compilation_detected or
  compilation_on) and not compilation_off.
\<close>

theorem is_compilation_truth_table:
  "is_compilation
     (set_compilation_off off_flag
       (set_compilation_on on_flag
         (set_compilation_detected detected (set_compilation tagged s))))
   = ((tagged \<or> detected \<or> on_flag) \<and> \<not> off_flag)"
  by (simp add: is_compilation_def set_compilation_off_def set_compilation_on_def
      set_compilation_detected_def set_compilation_def)

text \<open>
  C7. After \<open>set_length_nanosec L\<close> the length read back is \<open>L\<close>, whatever the
  beginning was, and the beginning is the one before the call.
\<close>

theorem set_length_then_length:
  "length_nanosec (set_length_nanosec L s) = L
   \<and> beginning_nanosec (set_length_nanosec L s) = beginning_nanosec s"
  by (simp add: length_nanosec_def set_length_nanosec_def beginning_nanosec_def)

text \<open>
  C10. \<open>a.MergeUserSetData(b)\<close> is \<open>a\<close> with the play count, the skip count,
  the last-played time and the manual art of \<open>b\<close>: the record equation fixes
  every other field of \<open>a\<close>.
\<close>

theorem MergeUserSetData_frame:
  "MergeUserSetData a b =
     a\<lparr> d_playcount := d_playcount b,
        d_skipcount := d_skipcount b,
        d_lastplayed := d_lastplayed b,
        d_art_manual := d_art_manual b \<rparr>"
  by (simp add: MergeUserSetData_def set_art_manual_def set_lastplayed_def
      set_skipcount_def set_playcount_def art_manual_def lastplayed_def
      skipcount_def playcount_def)

text \<open>
  Every member that the constructor's initialiser list names gets its
  sentinel; \<open>bitdepth_\<close> is the content of the memory.
\<close>

lemma Song_Song_fields:
  "Song_Song u =
     \<lparr> d_valid = False, d_id = - 1, d_album_id = - 1,
       d_title = [], d_album = [], d_artist = [], d_albumartist = [],
       d_track = - 1, d_disc = - 1, d_year = - 1, d_originalyear = - 1,
       d_genre = [], d_compilation = False,
       d_composer = [], d_performer = [], d_grouping = [], d_comment = [],
       d_beginning = 0, d_end = - 1,
       d_bitrate = - 1, d_samplerate = - 1, d_bitdepth = u,
       d_directory_id = - 1, d_basefilename = [], d_url = [],
       d_filetype = Type_Unknown, d_filesize = - 1, d_mtime = - 1, d_ctime = - 1,
       d_unavailable = False,
       d_playcount = 0, d_skipcount = 0, d_lastplayed = - 1,
       d_compilation_detected = False, d_compilation_on = False,
       d_compilation_off = False,
       d_art_automatic = [], d_art_manual = [], d_cue_path = [],
       d_image = [], d_init_from_file = False, d_suspicious_tags = False \<rparr>"
  by (simp add: Song_Song_def Private_Private_def)

text \<open>
  C9 (the code misses it). A song default-constructed on memory holding 0 has
  \<open>bitdepth_ = 0\<close>, not the sentinel \<open>-1\<close>: the constructor never writes
  the member.
\<close>

theorem Song_Song_bitdepth_uninitialised:
  "d_bitdepth (Song_Song 0) = 0 \<and> d_bitdepth (Song_Song 0) \<noteq> - 1"
  by (simp add: Song_Song_def Private_Private_def)

text \<open>
  C4, as stated, fails: a song whose tag marks it a compilation and a song
  that is none have the same effective album and the same effective album
  artist (all empty), which is alternative (c), yet \<open>IsOnSameAlbum\<close> is
  false.
\<close>

theorem IsOnSameAlbum_claim_counterexample:
  "\<not> IsOnSameAlbum song_tagged_compilation (Song_Song 0)
   \<and> effective_album song_tagged_compilation = effective_album (Song_Song 0)
   \<and> effective_albumartist song_tagged_compilation
       = effective_albumartist (Song_Song 0)"
  by (simp add: IsOnSameAlbum_def song_tagged_compilation_def default_song_defs
      setter_defs accessor_defs)

text \<open>
  C4, amended. \<open>IsOnSameAlbum\<close> is true exactly when both songs or neither
  is a compilation and, in addition, (a) both have the identical non-empty CUE
  path, or (b) they are compilations with identical album, or (c) their
  effective album and effective album artist both match.
\<close>

theorem IsOnSameAlbum_iff:
  "IsOnSameAlbum a b =
     (is_compilation a = is_compilation b \<and>
      ((has_cue a \<and> has_cue b \<and> cue_path a = cue_path b)
       \<or> (is_compilation a \<and> is_compilation b \<and> album a = album b)
       \<or> (effective_album a = effective_album b
           \<and> effective_albumartist a = effective_albumartist b)))"
  by (auto simp add: IsOnSameAlbum_def)

text \<open>
  C5, as stated, fails: two songs with empty album and album artist and the
  same title, neither a compilation, but with different artists, are not on
  the same album.
\<close>

theorem IsOnSameAlbum_title_fallback_counterexample:
  "d_album song_single_p = [] \<and> d_albumartist song_single_p = []
   \<and> d_album song_single_q = [] \<and> d_albumartist song_single_q = []
   \<and> d_title song_single_p = d_title song_single_q
   \<and> \<not> is_compilation song_single_p \<and> \<not> is_compilation song_single_q
   \<and> \<not> IsOnSameAlbum song_single_p song_single_q"
  by (simp add: IsOnSameAlbum_def song_single_p_def song_single_q_def
      default_song_defs setter_defs accessor_defs)

text \<open>
  C5, amended. Two songs with empty album and empty album artist, the same
  title and the same artist, neither a compilation, are on the same album.
\<close>

theorem IsOnSameAlbum_title_fallback:
  assumes "d_album a = []" and "d_albumartist a = []"
    and "d_album b = []" and "d_albumartist b = []"
    and "d_title a = d_title b" and "d_artist a = d_artist b"
    and "\<not> is_compilation a" and "\<not> is_compilation b"
  shows "IsOnSameAlbum a b"
  using assms
  by (simp add: IsOnSameAlbum_def effective_album_def effective_albumartist_def
      isEmpty_def)

theorem IsOnSameAlbum_title_fallback_witness:
  "d_album song_single_p = [] \<and> d_albumartist song_single_p = []
   \<and> d_album song_single_p_track_2 = [] \<and> d_albumartist song_single_p_track_2 = []
   \<and> d_title song_single_p = d_title song_single_p_track_2
   \<and> d_artist song_single_p = d_artist song_single_p_track_2
   \<and> \<not> is_compilation song_single_p \<and> \<not> is_compilation song_single_p_track_2
   \<and> IsOnSameAlbum song_single_p song_single_p_track_2"
proof -
  have h: "d_album song_single_p = []" "d_albumartist song_single_p = []"
    "d_album song_single_p_track_2 = []" "d_albumartist song_single_p_track_2 = []"
    "d_title song_single_p = d_title song_single_p_track_2"
    "d_artist song_single_p = d_artist song_single_p_track_2"
    "\<not> is_compilation song_single_p" "\<not> is_compilation song_single_p_track_2"
    by (simp_all add: song_single_p_def song_single_p_track_2_def default_song_defs
        setter_defs accessor_defs)
  from h show ?thesis
    using IsOnSameAlbum_title_fallback [OF h] by simp
qed

text \<open>
  C6, as stated, fails: two songs cut from the same CUE sheet are on the same
  album whatever their titles, but their album keys end in their different
  effective albums.
\<close>

theorem AlbumKey_stability_counterexample:
  "IsOnSameAlbum song_cue_a song_cue_b \<and> AlbumKey song_cue_a \<noteq> AlbumKey song_cue_b"
  by (simp add: IsOnSameAlbum_def AlbumKey_def song_cue_a_def song_cue_b_def
      default_song_defs setter_defs accessor_defs)

text \<open>
  C6, amended. Two songs on the same album, neither with a CUE path and, when
  they are compilations, with a non-empty album, have the same album key.
\<close>

theorem AlbumKey_stability:
  assumes "IsOnSameAlbum a b"
    and "\<not> has_cue a" and "\<not> has_cue b"
    and "is_compilation a \<longrightarrow> d_album a \<noteq> []"
  shows "AlbumKey a = AlbumKey b"
proof (cases "is_compilation a")
  case True
  with assms(1) have cb: "is_compilation b"
    by (simp add: IsOnSameAlbum_def split: if_splits)
  from assms True have "effective_album a = effective_album b"
    by (auto simp add: IsOnSameAlbum_def effective_album_def album_def isEmpty_def
        split: if_splits)
  with True cb assms(2,3) show ?thesis
    by (simp add: AlbumKey_def)
next
  case False
  with assms(1) have cb: "\<not> is_compilation b"
    by (simp add: IsOnSameAlbum_def split: if_splits)
  from assms(1,2) False
  have "effective_album a = effective_album b
        \<and> effective_albumartist a = effective_albumartist b"
    by (simp add: IsOnSameAlbum_def split: if_splits)
  with False cb assms(2,3) show ?thesis
    by (simp add: AlbumKey_def)
qed

theorem AlbumKey_stability_witness:
  "IsOnSameAlbum song_album_x song_album_x'
   \<and> \<not> has_cue song_album_x \<and> \<not> has_cue song_album_x'
   \<and> d_album song_album_x \<noteq> []
   \<and> AlbumKey song_album_x = AlbumKey song_album_x'"
proof -
  have h: "IsOnSameAlbum song_album_x song_album_x'"
    "\<not> has_cue song_album_x" "\<not> has_cue song_album_x'"
    "is_compilation song_album_x \<longrightarrow> d_album song_album_x \<noteq> []"
    by (simp_all add: IsOnSameAlbum_def song_album_x_def song_album_x'_def
        default_song_defs setter_defs accessor_defs)
  have "d_album song_album_x \<noteq> []"
    by (simp add: song_album_x_def default_song_defs setter_defs)
  with h show ?thesis
    using AlbumKey_stability [OF h] by simp
qed

section \<open>Properties of the adapters\<close>

subsection \<open>What a read leaves alone\<close>

lemma InitArtManual_frame:
  "d_title (InitArtManual env s) = d_title s"
  "d_album (InitArtManual env s) = d_album s"
  "d_artist (InitArtManual env s) = d_artist s"
  "d_albumartist (InitArtManual env s) = d_albumartist s"
  "d_composer (InitArtManual env s) = d_composer s"
  "d_performer (InitArtManual env s) = d_performer s"
  "d_grouping (InitArtManual env s) = d_grouping s"
  "d_track (InitArtManual env s) = d_track s"
  "d_disc (InitArtManual env s) = d_disc s"
  "d_year (InitArtManual env s) = d_year s"
  "d_originalyear (InitArtManual env s) = d_originalyear s"
  "d_genre (InitArtManual env s) = d_genre s"
  "d_comment (InitArtManual env s) = d_comment s"
  "d_compilation (InitArtManual env s) = d_compilation s"
  "d_beginning (InitArtManual env s) = d_beginning s"
  "d_end (InitArtManual env s) = d_end s"
  "d_bitrate (InitArtManual env s) = d_bitrate s"
  "d_samplerate (InitArtManual env s) = d_samplerate s"
  "d_bitdepth (InitArtManual env s) = d_bitdepth s"
  "d_art_automatic (InitArtManual env s) = d_art_automatic s"
  "d_cue_path (InitArtManual env s) = d_cue_path s"
  "d_lastplayed (InitArtManual env s) = d_lastplayed s"
  "d_filesize (InitArtManual env s) = d_filesize s"
  "d_mtime (InitArtManual env s) = d_mtime s"
  "d_ctime (InitArtManual env s) = d_ctime s"
  "d_directory_id (InitArtManual env s) = d_directory_id s"
  by (simp_all add: InitArtManual_def Let_def)


lemma InitArtManual_art_manual:
  "d_art_manual (InitArtManual env s) =
     (if d_art_manual s = [] \<and> d_art_automatic s = [] \<and>
         QFile_exists env
           (ImageCacheDir env @ ''/'' @ Sha1CoverHash_toHex env (d_artist s) (d_album s)
            @ ''.jpg'')
      then ImageCacheDir env @ ''/'' @ Sha1CoverHash_toHex env (d_artist s) (d_album s)
           @ ''.jpg''
      else d_art_manual s)"
  by (simp add: InitArtManual_def Let_def isEmpty_def)

subsection \<open>The wire adapter, field by field\<close>

lemma InitFromProtobuf_eq:
  "InitFromProtobuf env m s =
     InitArtManual env
       (s\<lparr> d_init_from_file := True,
           d_valid := pb_valid m,
           d_title := pb_title m,
           d_album := pb_album m,
           d_artist := pb_artist m,
           d_albumartist := pb_albumartist m,
           d_composer := pb_composer m,
           d_performer := pb_performer m,
           d_grouping := pb_grouping m,
           d_track := pb_track m,
           d_disc := pb_disc m,
           d_year := pb_year m,
           d_originalyear := pb_originalyear m,
           d_genre := pb_genre m,
           d_comment := pb_comment m,
           d_compilation := pb_compilation m,
           d_skipcount := pb_skipcount m,
           d_lastplayed := pb_lastplayed m,
           d_end := d_beginning s + pb_length_nanosec m,
           d_bitrate := pb_bitrate m,
           d_samplerate := pb_samplerate m,
           d_bitdepth := pb_bitdepth m,
           d_url := (if kIsPortable env
                     then resolved_against_application_dir env (pb_url m)
                     else pb_url m),
           d_basefilename := pb_basefilename m,
           d_mtime := pb_mtime m,
           d_ctime := pb_ctime m,
           d_filesize := pb_filesize m,
           d_suspicious_tags := pb_suspicious_tags m,
           d_filetype := FileType_cast env (pb_filetype m),
           d_art_automatic :=
             (case pb_art_automatic m of Some v \<Rightarrow> v | None \<Rightarrow> d_art_automatic s),
           d_playcount :=
             (case pb_playcount m of Some v \<Rightarrow> v | None \<Rightarrow> d_playcount s) \<rparr>)"
  by (cases "pb_art_automatic m"; cases "pb_playcount m";
      simp add: InitFromProtobuf_def set_length_nanosec_def set_url_def)

lemma ToProtobuf_fields:
  "pb_title (ToProtobuf env s pb) = d_title s"
  "pb_album (ToProtobuf env s pb) = d_album s"
  "pb_artist (ToProtobuf env s pb) = d_artist s"
  "pb_albumartist (ToProtobuf env s pb) = d_albumartist s"
  "pb_composer (ToProtobuf env s pb) = d_composer s"
  "pb_performer (ToProtobuf env s pb) = d_performer s"
  "pb_grouping (ToProtobuf env s pb) = d_grouping s"
  "pb_track (ToProtobuf env s pb) = d_track s"
  "pb_disc (ToProtobuf env s pb) = d_disc s"
  "pb_year (ToProtobuf env s pb) = d_year s"
  "pb_originalyear (ToProtobuf env s pb) = d_originalyear s"
  "pb_genre (ToProtobuf env s pb) = d_genre s"
  "pb_comment (ToProtobuf env s pb) = d_comment s"
  "pb_compilation (ToProtobuf env s pb) = d_compilation s"
  "pb_lastplayed (ToProtobuf env s pb) = d_lastplayed s"
  "pb_length_nanosec (ToProtobuf env s pb) = length_nanosec s"
  "pb_bitrate (ToProtobuf env s pb) = d_bitrate s"
  "pb_samplerate (ToProtobuf env s pb) = d_samplerate s"
  "pb_bitdepth (ToProtobuf env s pb) = d_bitdepth s"
  "pb_mtime (ToProtobuf env s pb) = d_mtime s"
  "pb_ctime (ToProtobuf env s pb) = d_ctime s"
  "pb_filesize (ToProtobuf env s pb) = d_filesize s"
  "pb_art_automatic (ToProtobuf env s pb) = Some (d_art_automatic s)"
  "pb_playcount (ToProtobuf env s pb) = Some (d_playcount s)"
  by (simp_all add: ToProtobuf_def)

lemma wire_roundtrip_of:
  assumes b: "d_beginning s = 0" and c: "d_cue_path s = []"
    and a: "d_art_manual (InitArtManual env (s\<lparr>d_art_manual := []\<rparr>)) = d_art_manual s"
    and b0: "d_beginning s0 = 0" and c0: "d_cue_path s0 = []" and a0: "d_art_manual s0 = []"
  shows "IsMetadataEqual (InitFromProtobuf env (ToProtobuf env s pb) s0) s"
proof -
  have "d_art_manual (InitFromProtobuf env (ToProtobuf env s pb) s0) = d_art_manual s"
    using a a0
    by (auto simp add: InitFromProtobuf_eq InitArtManual_art_manual ToProtobuf_fields
        split: if_splits)
  then show ?thesis
    using b c b0 c0
    by (simp add: IsMetadataEqual_def length_nanosec_def InitFromProtobuf_eq
        InitArtManual_frame ToProtobuf_fields)
qed

lemma InitFromProtobuf_fresh:
  "d_beginning (InitFromProtobuf env m (Song_Song u)) = 0"
  "d_cue_path (InitFromProtobuf env m (Song_Song u)) = []"
  "d_art_manual (InitArtManual env ((InitFromProtobuf env m (Song_Song u))\<lparr>d_art_manual := []\<rparr>))
     = d_art_manual (InitFromProtobuf env m (Song_Song u))"
    by (simp_all add: InitFromProtobuf_eq InitArtManual_frame InitArtManual_art_manual
        Song_Song_def Private_Private_def)

text \<open>
  What the spec's own sentence says: a song that was itself read from a
  message into a fresh record, with \<open>art_automatic\<close> and \<open>playcount\<close>
  present or absent in that message, and is then written and read into a
  fresh record in the same environment (the same cover cache), comes back
  metadata-equal.
\<close>

lemma wire_read_roundtrip:
  "IsMetadataEqual
     (InitFromProtobuf env (ToProtobuf env (InitFromProtobuf env m (Song_Song u)) pb)
        (Song_Song u'))
     (InitFromProtobuf env m (Song_Song u))"
  by (rule wire_roundtrip_of)
     (simp_all add: InitFromProtobuf_fresh, simp_all add: Song_Song_def Private_Private_def)

text \<open>
  The song that comes out of a write and a read into a fresh record: the
  three fields the message does not carry are those of the fresh record
  (after \<open>InitArtManual\<close>), every other compared field is that of the song
  written.
\<close>

lemma wire_roundtrip_fields:
  "d_beginning (InitFromProtobuf env (ToProtobuf env s pb) (Song_Song u)) = 0"
  "d_cue_path (InitFromProtobuf env (ToProtobuf env s pb) (Song_Song u)) = []"
  "d_art_manual (InitFromProtobuf env (ToProtobuf env s pb) (Song_Song u))
     = d_art_manual (InitArtManual env (set_art_manual [] s))"
  "length_nanosec (InitFromProtobuf env (ToProtobuf env s pb) (Song_Song u))
     = length_nanosec s"
  by (simp_all add: InitFromProtobuf_eq InitArtManual_frame InitArtManual_art_manual
      ToProtobuf_fields length_nanosec_def set_art_manual_def Song_Song_def
      Private_Private_def)

text \<open>
  C2, as stated, fails: the message carries neither the beginning, nor the
  manual art, nor the CUE path. A song that begins 5 ns into its file comes
  back beginning at 0.
\<close>

theorem wire_roundtrip_counterexample:
  "\<not> IsMetadataEqual
       (InitFromProtobuf plain_env (ToProtobuf plain_env song_began_late empty_message)
          (Song_Song 0))
       song_began_late"
proof -
  have "d_beginning
          (InitFromProtobuf plain_env (ToProtobuf plain_env song_began_late empty_message)
             (Song_Song 0)) = 0"
    by (rule InitFromProtobuf_fresh)
  moreover have "d_beginning song_began_late = 5"
    by (simp add: song_began_late_def set_beginning_nanosec_def word_sless_alt)
  ultimately show ?thesis
    by (simp add: IsMetadataEqual_def)
qed

text \<open>
  C2, amended. Writing a song to a message with \<open>ToProtobuf\<close> and reading
  that message into a fresh record with \<open>InitFromProtobuf\<close> gives a song
  that is metadata-equal to the original exactly when the original begins at
  0, has no CUE path, and has the manual art that \<open>InitArtManual\<close> gives a
  song without manual art in the environment of the read: the path of the
  cached cover for its artist and album when its automatic art is empty and
  that file exists, and the empty string otherwise.
\<close>

theorem wire_roundtrip_metadata_equal:
  "IsMetadataEqual (InitFromProtobuf env (ToProtobuf env s pb) (Song_Song u)) s
   = (d_beginning s = 0 \<and> d_cue_path s = []
      \<and> d_art_manual s = d_art_manual (InitArtManual env (set_art_manual [] s)))"
proof -
  let ?w = "InitFromProtobuf env (ToProtobuf env s pb) (Song_Song u)"
  have carried:
    "d_title ?w = d_title s" "d_album ?w = d_album s" "d_artist ?w = d_artist s"
    "d_albumartist ?w = d_albumartist s" "d_composer ?w = d_composer s"
    "d_performer ?w = d_performer s" "d_grouping ?w = d_grouping s"
    "d_track ?w = d_track s" "d_disc ?w = d_disc s" "d_year ?w = d_year s"
    "d_originalyear ?w = d_originalyear s" "d_genre ?w = d_genre s"
    "d_comment ?w = d_comment s" "d_compilation ?w = d_compilation s"
    "d_bitrate ?w = d_bitrate s" "d_samplerate ?w = d_samplerate s"
    "d_bitdepth ?w = d_bitdepth s" "d_art_automatic ?w = d_art_automatic s"
    by (simp_all add: InitFromProtobuf_eq InitArtManual_frame ToProtobuf_fields)
  show ?thesis
    unfolding IsMetadataEqual_def carried wire_roundtrip_fields
    by auto
qed

theorem wire_roundtrip_metadata_equal_witness:
  "d_beginning song_wire_t = 0 \<and> d_cue_path song_wire_t = []
   \<and> d_art_manual song_wire_t
       = d_art_manual (InitArtManual cached_env (set_art_manual [] song_wire_t))
   \<and> d_title song_wire_t = ''t''
   \<and> IsMetadataEqual
        (InitFromProtobuf cached_env (ToProtobuf cached_env song_wire_t empty_message)
           (Song_Song 0))
        song_wire_t"
proof -
  have h: "d_beginning song_wire_t = 0" "d_cue_path song_wire_t = []"
    "d_art_manual song_wire_t
       = d_art_manual (InitArtManual cached_env (set_art_manual [] song_wire_t))"
    "d_title song_wire_t = ''t''"
    by (simp_all add: song_wire_t_def InitArtManual_art_manual cached_env_def
        plain_env_def set_art_manual_def set_title_def set_track_def Song_Song_def
        Private_Private_def)
  with wire_roundtrip_metadata_equal [of cached_env song_wire_t empty_message 0]
  show ?thesis by simp
qed

subsection \<open>The relational adapter, column by column\<close>

lemma loop_full:
  assumes "columns q = [v0, v1, v2, v3, v4, v5, v6, v7, v8, v9, v10, v11, v12, v13, v14, v15, v16, v17, v18, v19, v20, v21, v22, v23, v24, v25, v26, v27, v28, v29, v30, v31, v32, v33, v34, v35, v36, v37, v38]"
  shows "InitFromQuery_loop env q kColumns 0 (s, lg) =
    (s\<lparr> d_title := tostr env v1, d_album := tostr env v2, d_artist := tostr env v3,
        d_albumartist := tostr env v4, d_track := toint env v5, d_disc := toint env v6,
        d_year := toint env v7, d_originalyear := toint env v8, d_genre := tostr env v9,
        d_compilation := toBool env v10, d_composer := tostr env v11,
        d_performer := tostr env v12, d_grouping := tostr env v13,
        d_comment := tostr env v14,
        d_beginning := (if isNull v15 then 0 else toLongLong env v15),
        d_end := (if isNull v15 then 0 else toLongLong env v15) + tolonglong env v16,
        d_bitrate := toint env v17, d_samplerate := toint env v18,
        d_bitdepth := toint env v19, d_directory_id := toint env v20,
        d_url := (if kIsPortable env then resolved_against_application_dir env (tostr env v21)
                  else tostr env v21),
        d_basefilename := local_fileName env ((if kIsPortable env then resolved_against_application_dir env (tostr env v21)
                  else tostr env v21)),
        d_filetype := FileType_cast env (toInt env v22),
        d_filesize := toint env v23, d_mtime := toint env v24, d_ctime := toint env v25,
        d_unavailable := toBool env v26,
        d_playcount := (if isNull v27 then 0 else toInt env v27),
        d_skipcount := (if isNull v28 then 0 else toInt env v28),
        d_lastplayed := toint env v29,
        d_compilation_detected := toBool env v30, d_compilation_on := toBool env v31,
        d_compilation_off := toBool env v32,
        d_art_automatic := toString env v34, d_art_manual := toString env v35,
        d_cue_path := tostr env v38 \<rparr>, lg)"
  using assms
  by (simp add: kColumns_def InitFromQuery_column_def set_length_nanosec_def set_url_def)


lemma bound_row:
  "columns (selected_row rowid (BindToQuery env s query)) =
     [ QVariant_int rowid,
       QVariant_QString (strval (d_title s)),
       QVariant_QString (strval (d_album s)),
       QVariant_QString (strval (d_artist s)),
       QVariant_QString (strval (d_albumartist s)),
       QVariant_int (intval (d_track s)),
       QVariant_int (intval (d_disc s)),
       QVariant_int (intval (d_year s)),
       QVariant_int (intval (d_originalyear s)),
       QVariant_QString (strval (d_genre s)),
       one_or_zero (d_compilation s),
       QVariant_QString (strval (d_composer s)),
       QVariant_QString (strval (d_performer s)),
       QVariant_QString (strval (d_grouping s)),
       QVariant_QString (strval (d_comment s)),
       QVariant_qlonglong (d_beginning s),
       QVariant_qlonglong (intval (length_nanosec s)),
       QVariant_int (intval (d_bitrate s)),
       QVariant_int (intval (d_samplerate s)),
       QVariant_int (intval (d_bitdepth s)),
       notnullintval (d_directory_id s),
       QVariant_QByteArray
             (if kIsPortable env \<and> UrlOnSameDriveAsStrawberry env (d_url s)
              then GetRelativePathToStrawberryBin env (d_url s)
              else d_url s),
       QVariant_int (FileType_value env (d_filetype s)),
       notnullintval (d_filesize s),
       notnullintval (d_mtime s),
       notnullintval (d_ctime s),
       one_or_zero (d_unavailable s),
       QVariant_int (d_playcount s),
       QVariant_int (d_skipcount s),
       QVariant_int (intval (d_lastplayed s)),
       one_or_zero (d_compilation_detected s),
       one_or_zero (d_compilation_on s),
       one_or_zero (d_compilation_off s),
       one_or_zero (is_compilation s),
       QVariant_QString (d_art_automatic s),
       QVariant_QString (d_art_manual s),
       QVariant_QString (effective_albumartist s),
       QVariant_int (intval (effective_originalyear s)),
       QVariant_QString (d_cue_path s) ]"
  by (simp add: selected_row_def BindToQuery_def kColumns_def boundValue_def bindValue_def)

lemma toint_int: "toint env (QVariant_int v) = v"
  by (simp add: toint_def)

lemma toint_notnullintval: "toint env (notnullintval v) = v"
  by (simp add: toint_def notnullintval_def)

lemma intval_alt: "intval x = (if 0 <s x then x else - 1)"
  by (auto simp add: intval_def word_sle_eq word_sless_alt)


lemma relational_roundtrip_fields:
  "\<exists>r. InitFromQuery env (selected_row rowid (BindToQuery env s query)) reliable 0 s0
         = Some (r, [])
     \<and> d_track r = intval (d_track s)
     \<and> d_disc r = intval (d_disc s)
     \<and> d_year r = intval (d_year s)
     \<and> d_originalyear r = intval (d_originalyear s)
     \<and> d_bitrate r = intval (d_bitrate s)
     \<and> d_samplerate r = intval (d_samplerate s)
     \<and> d_bitdepth r = intval (d_bitdepth s)
     \<and> d_lastplayed r = intval (d_lastplayed s)
     \<and> d_directory_id r = d_directory_id s
     \<and> d_filesize r = d_filesize s
     \<and> d_mtime r = d_mtime s
     \<and> d_ctime r = d_ctime s"
proof -
  let ?q = "selected_row rowid (BindToQuery env s query)"
  let ?s1 = "s0\<lparr>d_id := toint env (columns ?q ! 0)\<rparr>"
  define st where "st = InitFromQuery_loop env ?q kColumns 0 (?s1, [])"
  define r0 where "r0 = (fst st)\<lparr>d_valid := True, d_init_from_file := reliable\<rparr>"
  define r where "r = InitArtManual env r0"
  have len: "length (columns ?q) = 39"
    by (simp add: bound_row)
  have res: "InitFromQuery env ?q reliable 0 s0 = Some (r, snd st)"
    by (simp add: InitFromQuery_def Let_def len st_def r0_def r_def)
  note st_eq = loop_full [OF bound_row, of env rowid env s query ?s1 "[]"]
  have lg: "snd st = []"
    unfolding st_def by (simp only: st_eq snd_conv)
  have f: "d_track r0 = intval (d_track s)" "d_disc r0 = intval (d_disc s)"
    "d_year r0 = intval (d_year s)" "d_originalyear r0 = intval (d_originalyear s)"
    "d_bitrate r0 = intval (d_bitrate s)" "d_samplerate r0 = intval (d_samplerate s)"
    "d_bitdepth r0 = intval (d_bitdepth s)" "d_lastplayed r0 = intval (d_lastplayed s)"
    "d_directory_id r0 = d_directory_id s" "d_filesize r0 = d_filesize s"
    "d_mtime r0 = d_mtime s" "d_ctime r0 = d_ctime s"
    unfolding r0_def st_def st_eq
    by (simp_all add: toint_int toint_notnullintval)
  have g: "d_track r = d_track r0" "d_disc r = d_disc r0"
    "d_year r = d_year r0" "d_originalyear r = d_originalyear r0"
    "d_bitrate r = d_bitrate r0" "d_samplerate r = d_samplerate r0"
    "d_bitdepth r = d_bitdepth r0" "d_lastplayed r = d_lastplayed r0"
    "d_directory_id r = d_directory_id r0" "d_filesize r = d_filesize r0"
    "d_mtime r = d_mtime r0" "d_ctime r = d_ctime r0"
    unfolding r_def by (simp_all add: InitArtManual_frame)
  show ?thesis
    using res lg f g by simp
qed

text \<open>
  C1, as stated, fails: track 0 is written as \<open>-1\<close> by the relational
  adapter and read back as \<open>-1\<close>.
\<close>

theorem sentinel_int_roundtrip_counterexample:
  "d_track song_track_0 = 0
   \<and> map_option (d_track \<circ> fst)
         (InitFromQuery plain_env
            (selected_row 1 (BindToQuery plain_env song_track_0 Map.empty))
            True 0 (Song_Song 0))
       = Some (- 1)"
proof -
  obtain r where
    "InitFromQuery plain_env
       (selected_row 1 (BindToQuery plain_env song_track_0 Map.empty)) True 0 (Song_Song 0)
     = Some (r, [])"
    and "d_track r = intval (d_track song_track_0)"
    using relational_roundtrip_fields
      [of plain_env 1 song_track_0 Map.empty True "Song_Song 0"]
    by blast
  then show ?thesis
    by (simp add: song_track_0_def set_track_def intval_def)
qed

text \<open>
  C1, amended. Written by \<open>BindToQuery\<close> and read back by \<open>InitFromQuery\<close>
  from the row the database returns, track, disc, year, originalyear, bitrate,
  samplerate, bitdepth and lastplayed are \<open>x\<close> when \<open>x > 0\<close> and \<open>-1\<close>
  otherwise (so \<open>-1\<close> for the sentinel, and for 0 too); directory_id,
  filesize, mtime and ctime are \<open>x\<close> for every \<open>x\<close>. Written by
  \<open>ToProtobuf\<close> and read back by \<open>InitFromProtobuf\<close>, each of these
  fields that the message carries is \<open>x\<close> for every \<open>x\<close>.
\<close>

theorem sentinel_int_roundtrip:
  "\<exists>r w. InitFromQuery env (selected_row rowid (BindToQuery env s query)) reliable 0 s0
           = Some (r, [])
     \<and> InitFromProtobuf env (ToProtobuf env s pb) s1 = w
     \<and> d_track r = (if 0 <s d_track s then d_track s else - 1)
     \<and> d_disc r = (if 0 <s d_disc s then d_disc s else - 1)
     \<and> d_year r = (if 0 <s d_year s then d_year s else - 1)
     \<and> d_originalyear r = (if 0 <s d_originalyear s then d_originalyear s else - 1)
     \<and> d_bitrate r = (if 0 <s d_bitrate s then d_bitrate s else - 1)
     \<and> d_samplerate r = (if 0 <s d_samplerate s then d_samplerate s else - 1)
     \<and> d_bitdepth r = (if 0 <s d_bitdepth s then d_bitdepth s else - 1)
     \<and> d_lastplayed r = (if 0 <s d_lastplayed s then d_lastplayed s else - 1)
     \<and> d_directory_id r = d_directory_id s
     \<and> d_filesize r = d_filesize s
     \<and> d_mtime r = d_mtime s
     \<and> d_ctime r = d_ctime s
     \<and> d_track w = d_track s
     \<and> d_disc w = d_disc s
     \<and> d_year w = d_year s
     \<and> d_originalyear w = d_originalyear s
     \<and> d_bitrate w = d_bitrate s
     \<and> d_samplerate w = d_samplerate s
     \<and> d_bitdepth w = d_bitdepth s
     \<and> d_lastplayed w = d_lastplayed s
     \<and> d_filesize w = d_filesize s
     \<and> d_mtime w = d_mtime s
     \<and> d_ctime w = d_ctime s"
proof -
  define w where "w = InitFromProtobuf env (ToProtobuf env s pb) s1"
  have w: "d_track w = d_track s" "d_disc w = d_disc s" "d_year w = d_year s"
    "d_originalyear w = d_originalyear s" "d_bitrate w = d_bitrate s"
    "d_samplerate w = d_samplerate s" "d_bitdepth w = d_bitdepth s"
    "d_lastplayed w = d_lastplayed s" "d_filesize w = d_filesize s"
    "d_mtime w = d_mtime s" "d_ctime w = d_ctime s"
    unfolding w_def
    by (simp_all add: InitFromProtobuf_eq InitArtManual_frame ToProtobuf_fields)
  from relational_roundtrip_fields [of env rowid s query reliable s0]
  obtain r where
    "InitFromQuery env (selected_row rowid (BindToQuery env s query)) reliable 0 s0
     = Some (r, [])"
    and "d_track r = intval (d_track s)" and "d_disc r = intval (d_disc s)"
    and "d_year r = intval (d_year s)" and "d_originalyear r = intval (d_originalyear s)"
    and "d_bitrate r = intval (d_bitrate s)" and "d_samplerate r = intval (d_samplerate s)"
    and "d_bitdepth r = intval (d_bitdepth s)" and "d_lastplayed r = intval (d_lastplayed s)"
    and "d_directory_id r = d_directory_id s" and "d_filesize r = d_filesize s"
    and "d_mtime r = d_mtime s" and "d_ctime r = d_ctime s"
    by blast
  with w show ?thesis
    unfolding w_def by (simp add: intval_alt)
qed

subsection \<open>A truncated row\<close>

lemma loop_truncated:
  assumes "columns q = [v0, v1, v2, v3, v4, v5, v6, v7, v8, v9]"
  shows "InitFromQuery_loop env q kColumns 0 (s, lg) =
    (s\<lparr> d_title := tostr env v1, d_album := tostr env v2, d_artist := tostr env v3,
        d_albumartist := tostr env v4, d_track := toint env v5, d_disc := toint env v6,
        d_year := toint env v7, d_originalyear := toint env v8,
        d_genre := tostr env v9 \<rparr>,
     lg @ [Skipping ''compilation''])"
  using assms
  by (simp add: kColumns_def InitFromQuery_column_def)

lemma InitFromQuery_truncated_eq:
  assumes "columns q = [v0, v1, v2, v3, v4, v5, v6, v7, v8, v9]"
  shows "InitFromQuery env q reliable 0 s =
    Some (InitArtManual env
            (s\<lparr> d_id := toint env v0,
                d_title := tostr env v1, d_album := tostr env v2,
                d_artist := tostr env v3, d_albumartist := tostr env v4,
                d_track := toint env v5, d_disc := toint env v6,
                d_year := toint env v7, d_originalyear := toint env v8,
                d_genre := tostr env v9,
                d_valid := True, d_init_from_file := reliable \<rparr>),
          [Skipping ''compilation''])"
  using assms
  by (simp add: InitFromQuery_def Let_def loop_truncated [OF assms])

lemma ten_values:
  assumes "length (xs :: 'a list) = 10"
  shows "xs = [xs ! 0, xs ! 1, xs ! 2, xs ! 3, xs ! 4, xs ! 5, xs ! 6, xs ! 7, xs ! 8, xs ! 9]"
proof -
  from assms obtain v0 v1 v2 v3 v4 v5 v6 v7 v8 v9
    where "xs = [v0, v1, v2, v3, v4, v5, v6, v7, v8, v9]"
    by (auto simp add: numeral_eq_Suc length_Suc_conv)
  then show ?thesis by simp
qed

text \<open>
  C8, as stated, fails: with a cover for the artist and album of the row in
  the cache, the read sets \<open>art_manual\<close>, a field of a column beyond the ten
  values, to the path of that cover.
\<close>

theorem InitFromQuery_truncated_counterexample:
  "length (columns truncated_row) = 10
   \<and> map_option (d_art_manual \<circ> fst)
         (InitFromQuery cached_env truncated_row True 0 (Song_Song 0))
       = Some ''cache/c0ffee.jpg''"
proof -
  have c: "columns truncated_row =
     [ QVariant_int 7, QVariant_QString ''t'', QVariant_QString ''al'',
       QVariant_QString ''ar'', QVariant_QString [], QVariant_int 1,
       QVariant_int 1, QVariant_int 2001, QVariant_Null, QVariant_QString ''g'' ]"
    by (simp add: truncated_row_def)
  have "map_option (d_art_manual \<circ> fst)
          (InitFromQuery cached_env truncated_row True 0 (Song_Song 0))
        = Some ''cache/c0ffee.jpg''"
    unfolding InitFromQuery_truncated_eq [OF c]
    by (simp add: InitArtManual_art_manual cached_env_def plain_env_def Song_Song_def
        Private_Private_def)
  then show ?thesis
    by (simp add: c)
qed

text \<open>
  C8, amended. Read from a row of ten values (the row id and the first nine
  columns) into a default-constructed song, \<open>InitFromQuery\<close> returns, logs
  that it skips the column \<open>compilation\<close>, and leaves every field of a later
  column as the constructor set it, except \<open>art_manual\<close>: that is the path
  of the cached cover when a file is there, and empty otherwise. (Nothing is
  said of \<open>bitdepth\<close>, which the constructor does not set.)
\<close>

theorem InitFromQuery_truncated:
  assumes "length (columns q) = 10"
  shows "\<exists>r. InitFromQuery env q reliable 0 (Song_Song u) = Some (r, [Skipping ''compilation''])
     \<and> d_compilation r = False \<and> d_composer r = [] \<and> d_performer r = []
     \<and> d_grouping r = [] \<and> d_comment r = []
     \<and> d_beginning r = 0 \<and> d_end r = - 1
     \<and> d_bitrate r = - 1 \<and> d_samplerate r = - 1
     \<and> d_directory_id r = - 1 \<and> d_url r = [] \<and> d_basefilename r = []
     \<and> d_filetype r = Type_Unknown
     \<and> d_filesize r = - 1 \<and> d_mtime r = - 1 \<and> d_ctime r = - 1
     \<and> d_unavailable r = False
     \<and> d_playcount r = 0 \<and> d_skipcount r = 0 \<and> d_lastplayed r = - 1
     \<and> d_compilation_detected r = False \<and> d_compilation_on r = False
     \<and> d_compilation_off r = False
     \<and> d_art_automatic r = [] \<and> d_cue_path r = []
     \<and> d_art_manual r =
         (if QFile_exists env
               (ImageCacheDir env @ ''/''
                @ Sha1CoverHash_toHex env (tostr env (columns q ! 3))
                    (tostr env (columns q ! 2))
                @ ''.jpg'')
          then ImageCacheDir env @ ''/''
               @ Sha1CoverHash_toHex env (tostr env (columns q ! 3))
                   (tostr env (columns q ! 2))
               @ ''.jpg''
          else [])"
proof -
  note eq = InitFromQuery_truncated_eq [OF ten_values [OF assms], of env reliable "Song_Song u"]
  show ?thesis
    unfolding eq
    by (simp add: InitArtManual_def Let_def isEmpty_def Song_Song_def Private_Private_def)
qed

theorem InitFromQuery_truncated_witness:
  "length (columns truncated_row) = 10
   \<and> (\<exists>r. InitFromQuery plain_env truncated_row True 0 (Song_Song 0)
               = Some (r, [Skipping ''compilation''])
          \<and> d_art_manual r = [] \<and> d_cue_path r = [] \<and> d_lastplayed r = - 1)"
proof -
  have h: "length (columns truncated_row) = 10"
    by (simp add: truncated_row_def)
  from InitFromQuery_truncated [OF h, of plain_env True 0]
  obtain r where "InitFromQuery plain_env truncated_row True 0 (Song_Song 0)
               = Some (r, [Skipping ''compilation''])"
    and "d_cue_path r = []" and "d_lastplayed r = - 1"
    and "d_art_manual r =
         (if QFile_exists plain_env
               (ImageCacheDir plain_env @ ''/''
                @ Sha1CoverHash_toHex plain_env (tostr plain_env (columns truncated_row ! 3))
                    (tostr plain_env (columns truncated_row ! 2))
                @ ''.jpg'')
          then ImageCacheDir plain_env @ ''/''
               @ Sha1CoverHash_toHex plain_env (tostr plain_env (columns truncated_row ! 3))
                   (tostr plain_env (columns truncated_row ! 2))
               @ ''.jpg''
          else [])"
    by blast
  with h show ?thesis
    by (simp add: plain_env_def)
qed

end
